theory Spec2Isabelle
  imports Main
begin

section \<open>Python strings\<close>

text \<open>
  A Python \<open>str\<close> is a sequence of Unicode code points, and \<open>len\<close> counts code points.
  A string is therefore a list of code points; the rupee glyph is the single code point
  8377 and the arrow of the line-number prefix is 8594.
\<close>

type_synonym ustring = "nat list"

definition ustr :: "string \<Rightarrow> ustring" where
  "ustr s = map of_char s"

text \<open>A control word: a backslash (code point 92) followed by the keyword.\<close>

definition kw :: "string \<Rightarrow> ustring" where
  "kw s = 92 # ustr s"

text \<open>
  \<open>str.isspace\<close>, which is also the class \<open>\s\<close> of \<open>re\<close> on \<open>str\<close> patterns and the
  set that \<open>str.strip()\<close> and \<open>str.split()\<close> use.
\<close>

definition is_space :: "nat \<Rightarrow> bool" where
  "is_space c \<longleftrightarrow>
     (9 \<le> c \<and> c \<le> 13) \<or> (28 \<le> c \<and> c \<le> 32) \<or> c = 133 \<or> c = 160 \<or> c = 5760 \<or>
     (8192 \<le> c \<and> c \<le> 8202) \<or> c = 8232 \<or> c = 8233 \<or> c = 8239 \<or> c = 8287 \<or> c = 12288"

text \<open>
  The class \<open>\d\<close> of \<open>re\<close> on \<open>str\<close> patterns: the decimal digits of Unicode
  (\<open>str.isdecimal\<close>), as ranges of code points.
\<close>

definition digit_ranges :: "(nat \<times> nat) list" where
  "digit_ranges =
     [(48, 57), (1632, 1641), (1776, 1785), (1984, 1993), (2406, 2415), (2534, 2543),
      (2662, 2671), (2790, 2799), (2918, 2927), (3046, 3055), (3174, 3183), (3302, 3311),
      (3430, 3439), (3558, 3567), (3664, 3673), (3792, 3801), (3872, 3881), (4160, 4169),
      (4240, 4249), (6112, 6121), (6160, 6169), (6470, 6479), (6608, 6617), (6784, 6793),
      (6800, 6809), (6992, 7001), (7088, 7097), (7232, 7241), (7248, 7257), (42528, 42537),
      (43216, 43225), (43264, 43273), (43472, 43481), (43504, 43513), (43600, 43609),
      (44016, 44025), (65296, 65305), (66720, 66729), (68912, 68921), (69734, 69743),
      (69872, 69881), (69942, 69951), (70096, 70105), (70384, 70393), (70736, 70745),
      (70864, 70873), (71248, 71257), (71360, 71369), (71472, 71481), (71904, 71913),
      (72016, 72025), (72784, 72793), (73040, 73049), (73120, 73129), (92768, 92777),
      (92864, 92873), (93008, 93017), (120782, 120831), (123200, 123209), (123632, 123641),
      (125264, 125273), (130032, 130041)]"

definition is_digit :: "nat \<Rightarrow> bool" where
  "is_digit c = list_ex (\<lambda>(a, b). a \<le> c \<and> c \<le> b) digit_ranges"

text \<open>The class \<open>[a-zA-Z]\<close>.\<close>

definition is_alpha :: "nat \<Rightarrow> bool" where
  "is_alpha c \<longleftrightarrow> (65 \<le> c \<and> c \<le> 90) \<or> (97 \<le> c \<and> c \<le> 122)"

text \<open>
  The class \<open>\w\<close>: letters, digits and the underscore. Its only use is \<open>\w*\<close> in front of
  \<open>\d*[^\\]*\<close>, which accepts whatever \<open>\w*\<close> gives back, so only its not holding the
  backslash matters there; the letters beyond ASCII are left out of the table.
\<close>

definition is_word :: "nat \<Rightarrow> bool" where
  "is_word c \<longleftrightarrow> is_alpha c \<or> is_digit c \<or> c = 95"

fun startswith :: "ustring \<Rightarrow> ustring \<Rightarrow> bool" where
  "startswith s [] = True"
| "startswith [] (p # ps) = False"
| "startswith (c # cs) (p # ps) = (c = p \<and> startswith cs ps)"

text \<open>\<open>s.startswith((p1, p2, ...))\<close>: some prefix of the tuple fits.\<close>

definition startswith_any :: "ustring \<Rightarrow> ustring list \<Rightarrow> bool" where
  "startswith_any s ps = list_ex (startswith s) ps"

definition strip :: "ustring \<Rightarrow> ustring" where
  "strip s = rev (dropWhile is_space (rev (dropWhile is_space s)))"

text \<open>\<open>s.split(d)\<close> for a separator of one character: never an empty list.\<close>

fun split_on :: "nat \<Rightarrow> ustring \<Rightarrow> ustring list" where
  "split_on d [] = [[]]"
| "split_on d (c # cs) =
     (if c = d then [] # split_on d cs
      else (case split_on d cs of [] \<Rightarrow> [[c]] | l # ls \<Rightarrow> (c # l) # ls))"

text \<open>\<open>s.split(d, 1)\<close>: cut at the first separator only.\<close>

definition split_once :: "nat \<Rightarrow> ustring \<Rightarrow> ustring list" where
  "split_once d s =
     (if d \<in> set s then [takeWhile (\<lambda>c. c \<noteq> d) s, tl (dropWhile (\<lambda>c. c \<noteq> d) s)] else [s])"

text \<open>\<open>s.split()\<close>: the maximal runs of characters that are not whitespace.\<close>

function split_ws :: "ustring \<Rightarrow> ustring list" where
  "split_ws s =
     (case dropWhile is_space s of
        [] \<Rightarrow> []
      | c # cs \<Rightarrow> (c # takeWhile (\<lambda>x. \<not> is_space x) cs) # split_ws (dropWhile (\<lambda>x. \<not> is_space x) cs))"
  by pat_completeness auto
termination
proof (relation "measure length")
  fix s :: ustring and c cs
  assume h: "dropWhile is_space s = c # cs"
  have "length (dropWhile (\<lambda>x. \<not> is_space x) cs) \<le> length cs"
    by (rule length_dropWhile_le)
  moreover have "length (c # cs) \<le> length s"
    using length_dropWhile_le [of is_space s] h by simp
  ultimately show "(dropWhile (\<lambda>x. \<not> is_space x) cs, s) \<in> measure length"
    by simp
qed simp

fun join :: "ustring \<Rightarrow> ustring list \<Rightarrow> ustring" where
  "join sep [] = []"
| "join sep [x] = x"
| "join sep (x # y # ys) = x @ sep @ join sep (y # ys)"

text \<open>
  \<open>s.replace(old, new)\<close>: the occurrences of \<open>old\<close> from the left, not overlapping. With
  an empty \<open>old\<close> Python puts \<open>new\<close> around every character.
\<close>

function replace :: "ustring \<Rightarrow> ustring \<Rightarrow> ustring \<Rightarrow> ustring" where
  "replace old new [] = (if old = [] then new else [])"
| "replace old new (c # cs) =
     (if old = [] then new @ c # replace old new cs
      else if startswith (c # cs) old then new @ replace old new (drop (length old) (c # cs))
      else c # replace old new cs)"
  by pat_completeness auto
termination
  by (relation "measure (\<lambda>(old, new, s). length s)") (auto simp: neq_Nil_conv)

text \<open>\<open>sub in s\<close>, Python's \<open>sub in s\<close> on strings.\<close>

fun contains :: "ustring \<Rightarrow> ustring \<Rightarrow> bool" where
  "contains [] sub = (sub = [])"
| "contains (c # cs) sub = (startswith (c # cs) sub \<or> contains cs sub)"

section \<open>Regular expressions\<close>

text \<open>
  The patterns of the program are sequences of five kinds of items: a literal text; one
  character of a class (\<open>[{}]\<close>); a character class repeated greedily at least \<open>n\<close> times (\<open>[..]*\<close>, \<open>[..]+\<close>,
  \<open>[..]{n,}\<close>); a class repeated lazily (\<open>.*?\<close>); and the negative lookahead for one
  character (\<open>(?!\\)\<close>). \<open>rmatch p s\<close> matches \<open>p\<close> at the start of \<open>s\<close> the way the
  backtracking matcher of \<open>re\<close> does (a greedy item takes all it can and gives back one
  character at a time, a lazy one takes one more only when the rest fails) and returns
  what is left of \<open>s\<close> after the first match found.
\<close>

datatype atom =
  Lit ustring | Cls "nat \<Rightarrow> bool" | Rep "nat \<Rightarrow> bool" nat | Lazy "nat \<Rightarrow> bool" | NotAhead nat

fun rmatch :: "atom list \<Rightarrow> ustring \<Rightarrow> ustring option" where
  "rmatch [] s = Some s"
| "rmatch (Lit l # as) s = (if startswith s l then rmatch as (drop (length l) s) else None)"
| "rmatch (Cls C # as) s =
     (case s of [] \<Rightarrow> None | c # cs \<Rightarrow> if C c then rmatch as cs else None)"
| "rmatch (NotAhead c # as) s =
     (case s of [] \<Rightarrow> rmatch as s | d # ds \<Rightarrow> if d = c then None else rmatch as s)"
| "rmatch (Rep C n # as) s =
     (case s of
        [] \<Rightarrow> (if n = 0 then rmatch as [] else None)
      | c # cs \<Rightarrow>
          (if C c then
             (case rmatch (Rep C (n - 1) # as) cs of
                Some r \<Rightarrow> Some r
              | None \<Rightarrow> (if n = 0 then rmatch as (c # cs) else None))
           else (if n = 0 then rmatch as (c # cs) else None)))"
| "rmatch (Lazy C # as) s =
     (case rmatch as s of
        Some r \<Rightarrow> Some r
      | None \<Rightarrow>
          (case s of [] \<Rightarrow> None | c # cs \<Rightarrow> if C c then rmatch (Lazy C # as) cs else None))"

text \<open>
  \<open>re.sub(p, repl, s)\<close>: the matches from the left, not overlapping, each replaced by
  \<open>repl\<close> applied to the matched text. An empty match is replaced too and the scan moves
  one character on (no pattern of the program matches the empty string).
\<close>

function resub_fn :: "atom list \<Rightarrow> (ustring \<Rightarrow> ustring) \<Rightarrow> ustring \<Rightarrow> ustring" where
  "resub_fn p f [] = (case rmatch p [] of Some r \<Rightarrow> f [] | None \<Rightarrow> [])"
| "resub_fn p f (c # cs) =
     (case rmatch p (c # cs) of
        None \<Rightarrow> c # resub_fn p f cs
      | Some r \<Rightarrow>
          (if length r < length (c # cs)
           then f (take (length (c # cs) - length r) (c # cs)) @ resub_fn p f r
           else f [] @ c # resub_fn p f cs))"
  by pat_completeness auto
termination
  by (relation "measure (\<lambda>(p, f, s). length s)") auto

definition resub :: "atom list \<Rightarrow> ustring \<Rightarrow> ustring \<Rightarrow> ustring" where
  "resub p repl s = resub_fn p (\<lambda>m. repl) s"

text \<open>
  \<open>re.sub\<close> with a pattern that starts with \<open>^\<close> (no MULTILINE flag): only a match at
  the start of the string is replaced.
\<close>

definition resub_start :: "atom list \<Rightarrow> ustring \<Rightarrow> ustring \<Rightarrow> ustring" where
  "resub_start p repl s = (case rmatch p s of None \<Rightarrow> s | Some r \<Rightarrow> repl @ r)"

text \<open>\<open>re.match(p, s)\<close> as a truth value.\<close>

definition rematch :: "atom list \<Rightarrow> ustring \<Rightarrow> bool" where
  "rematch p s = (rmatch p s \<noteq> None)"

definition digits1 :: atom where
  "digits1 = Rep is_digit 1"

definition not_chr :: "nat \<Rightarrow> nat \<Rightarrow> bool" where
  "not_chr d c = (c \<noteq> d)"

definition is_chr :: "nat \<Rightarrow> nat \<Rightarrow> bool" where
  "is_chr d c = (c = d)"

section \<open>The recovery engine of \<open>advanced_rtf_processor.py\<close>\<close>

datatype error = IndexError | FileNotFoundError ustring | PermissionError ustring

subsection \<open>\<open>clean_rtf_content\<close>\<close>

text \<open>Step 1: remove RTF header and setup.\<close>

definition clean_step1 :: "ustring \<Rightarrow> ustring" where
  "clean_step1 content =
     (let content = resub [Lit (kw ''rtf1''), Rep (not_chr 125) 0] [] content;
          content = resub [Lit (kw ''cocoartf''), digits1] [] content;
          content = resub [Lit (kw ''cocoatextscaling''), digits1,
                           Lit (kw ''cocoaplatform''), digits1] [] content;
          content = resub [Lit (123 # kw ''fonttbl''), Rep (not_chr 125) 0, Rep (is_chr 125) 1]
                      [] content;
          content = resub [Lit (123 # kw ''colortbl''), Rep (not_chr 125) 0, Rep (is_chr 125) 1]
                      [] content;
          content = resub [Lit [123, 92], Lazy (not_chr 10), Lit (ustr ''expandedcolortbl''),
                           Rep (not_chr 125) 0, Rep (is_chr 125) 1] [] content
      in content)"

text \<open>Step 2: clean up page layout and paragraph controls.\<close>

definition clean_step2 :: "ustring \<Rightarrow> ustring" where
  "clean_step2 content =
     (let content = resub [Lit (kw ''paperw''), digits1, Lit (kw ''paperh''), digits1,
                           Lit (kw ''margl''), digits1, Lit (kw ''margr''), digits1,
                           Lit (kw ''vieww''), digits1, Lit (kw ''viewh''), digits1,
                           Lit (kw ''viewkind''), digits1] [] content;
          content = resub [Lit (kw ''deftab''), digits1] [] content
      in content)"

text \<open>Step 3: process paragraph markers and formatting.\<close>

definition PARA_BREAK :: ustring where
  "PARA_BREAK = ustr ''PARA_BREAK''"

definition clean_step3 :: "ustring \<Rightarrow> ustring" where
  "clean_step3 content =
     (let content = resub [Lit (kw ''pard''), Rep (not_chr 92) 0]
                      ([10, 10] @ PARA_BREAK @ [10]) content;
          content = resub [Lit (kw ''pardeftab''), Rep is_word 0, Rep is_digit 0,
                           Rep (not_chr 92) 0] [] content
      in content)"

text \<open>Step 4: handle font and formatting.\<close>

definition clean_step4 :: "ustring \<Rightarrow> ustring" where
  "clean_step4 content =
     (let content = resub [Lit (kw ''f0'' @ kw ''b'' @ kw ''fs''), digits1]
                      (ustr ''BOLD_START'') content;
          content = resub [Lit (kw ''f0'' @ kw ''b''), NotAhead 92] (ustr ''BOLD_START'') content;
          content = resub [Lit (kw ''f1'' @ kw ''b0'')] (ustr ''BOLD_END'') content;
          content = resub [Lit (kw ''f2'' @ kw ''i'')] (ustr ''ITALIC_START'') content;
          content = resub [Lit (kw ''f1'' @ kw ''i0'')] (ustr ''ITALIC_END'') content
      in content)"

text \<open>Step 5: remove other formatting codes.\<close>

definition clean_step5 :: "ustring \<Rightarrow> ustring" where
  "clean_step5 content =
     (let content = resub [Lit (kw ''f''), digits1] [] content;
          content = resub [Lit (kw ''fs''), digits1] [] content;
          content = resub [Lit (kw ''cf''), digits1] [] content;
          content = resub [Lit (kw ''strokec''), digits1] [] content;
          content = resub [Lit (kw ''expnd''), digits1, Lit (kw ''expndtw''), digits1,
                           Lit (kw ''kerning''), digits1] [] content;
          content = resub [Lit (kw ''outl''), digits1, Lit (kw ''strokewidth''), digits1]
                      [] content
      in content)"

text \<open>Step 6: handle special characters (the rupee symbol and the line separator).\<close>

definition rupee_escape :: ustring where
  "rupee_escape = kw ''uc0'' @ kw ''u8377''"

definition clean_step6 :: "ustring \<Rightarrow> ustring" where
  "clean_step6 content =
     (let content = replace rupee_escape [8377] content;
          content = replace (kw ''uc0'' @ kw ''u8232'') [10] content
      in content)"

text \<open>Step 7: clean up backslashes and braces.\<close>

definition rtf_command :: "atom list" where
  "rtf_command = [Lit [92], Rep is_alpha 1, Rep is_digit 0, Rep is_space 0]"

definition clean_step7 :: "ustring \<Rightarrow> ustring" where
  "clean_step7 content =
     (let content = resub rtf_command [32] content;
          content = replace [125] [] (replace [123] [] content);
          content = replace [92] [10] content
      in content)"

text \<open>
  Step 8: process into clean paragraphs. \<open>clean_line\<close> is the body of the loop over the
  lines: what one line appends to \<open>lines\<close>.
\<close>

definition clean_line :: "ustring \<Rightarrow> ustring list" where
  "clean_line l =
     (let line = strip l in
      if line = [] \<or> startswith line PARA_BREAK \<or> length line < 3 then
        (if startswith line PARA_BREAK then [[]] else [])
      else
        (let line = replace (ustr ''BOLD_START'') (ustr ''<strong>'') line;
             line = replace (ustr ''BOLD_END'') (ustr ''</strong>'') line;
             line = replace (ustr ''ITALIC_START'') (ustr ''<em>'') line;
             line = replace (ustr ''ITALIC_END'') (ustr ''</em>'') line;
             line = resub [Rep is_space 1] [32] line;
             line = resub_start [Rep (\<lambda>c. c = 42 \<or> is_space c) 1] [] line
         in if line \<noteq> [] then [line] else []))"

definition clean_step8 :: "ustring \<Rightarrow> ustring" where
  "clean_step8 content = join [10] (concat (map clean_line (split_on 10 content)))"

definition clean_rtf_content :: "ustring \<Rightarrow> ustring" where
  "clean_rtf_content content =
     clean_step8 (clean_step7 (clean_step6 (clean_step5 (clean_step4 (clean_step3
       (clean_step2 (clean_step1 content)))))))"

subsection \<open>\<open>structure_legal_document\<close>\<close>

text \<open>
  The first loop: \<open>collect_paragraphs ls cur\<close> is the list of paragraphs appended from
  the lines \<open>ls\<close> on, when \<open>current_para\<close> is \<open>cur\<close>.
\<close>

fun collect_paragraphs :: "ustring list \<Rightarrow> ustring \<Rightarrow> ustring list" where
  "collect_paragraphs [] cur = (if cur \<noteq> [] then [strip cur] else [])"
| "collect_paragraphs (l # ls) cur =
     (let line = strip l in
      if line = [] then
        (if cur \<noteq> [] then strip cur # collect_paragraphs ls [] else collect_paragraphs ls cur)
      else
        (if cur \<noteq> [] then collect_paragraphs ls (cur @ [32] @ line)
         else collect_paragraphs ls line))"

text \<open>The legal formatting patterns of the second loop, in the order of the source.\<close>

definition mark_recital :: "ustring \<Rightarrow> error + ustring" where
  "mark_recital para =
     (if startswith_any para [ustr ''WHEREAS'', ustr ''AND WHEREAS'', ustr ''NOW THEREFORE''] then
        (case split_ws para of
           [] \<Rightarrow> Inl IndexError
         | w # ws \<Rightarrow> Inr (ustr ''<strong>'' @ w @ ustr ''</strong> '' @ join [32] ws))
      else Inr para)"

definition mark_article :: "ustring \<Rightarrow> ustring" where
  "mark_article para =
     (if startswith para (ustr ''ARTICLE'') \<and> contains para [58]
      then ustr ''<strong>'' @ para @ ustr ''</strong>'' else para)"

definition mark_section :: "ustring \<Rightarrow> error + ustring" where
  "mark_section para =
     (if rematch [digits1, Lit [46], digits1] para then
        (let parts = split_once 32 para in
         if length parts > 1 then
           (case split_ws (parts ! 1) of
              [] \<Rightarrow> Inl IndexError
            | w # ws \<Rightarrow>
                Inr (ustr ''<strong>'' @ parts ! 0 @ [32] @ w @ ustr ''</strong> '' @ join [32] ws))
         else Inr para)
      else Inr para)"

definition format_paragraph :: "ustring \<Rightarrow> error + ustring" where
  "format_paragraph para =
     (let para = resub [Rep is_space 1] [32] para in
      case mark_recital para of
        Inl e \<Rightarrow> Inl e
      | Inr para \<Rightarrow> mark_section (mark_article para))"

fun html_parts :: "ustring list \<Rightarrow> error + ustring list" where
  "html_parts [] = Inr []"
| "html_parts (para # ps) =
     (if strip para \<noteq> [] then
        (case format_paragraph para of
           Inl e \<Rightarrow> Inl e
         | Inr q \<Rightarrow> (case html_parts ps of Inl e \<Rightarrow> Inl e | Inr qs \<Rightarrow> Inr (q # qs)))
      else html_parts ps)"

definition structure_legal_document :: "ustring \<Rightarrow> ustring \<Rightarrow> error + ustring list" where
  "structure_legal_document content title =
     html_parts (collect_paragraphs (split_on 10 content) [])"

text \<open>The recovery engine: \<open>clean_rtf_content\<close> followed by \<open>structure_legal_document\<close>.\<close>

definition recover :: "ustring \<Rightarrow> ustring \<Rightarrow> error + ustring list" where
  "recover raw title = structure_legal_document (clean_rtf_content raw) title"

subsection \<open>\<open>create_clean_legal_html\<close>\<close>

text \<open>The fixed text in front of the paragraphs and behind them.\<close>

definition clean_legal_html_head :: "ustring \<Rightarrow> ustring" where
  \<open>clean_legal_html_head title = join [10]
     [ustr ''<!DOCTYPE html>'',
      ustr ''<html lang="en">'',
      ustr ''<head>'',
      ustr ''    <meta charset="UTF-8">'',
      ustr ''    <meta name="viewport" content="width=device-width, initial-scale=1.0">'',
      ustr ''    <title>'' @ title @ ustr '' - Lotuslion Venture</title>'',
      ustr ''    <style>'',
      ustr ''        body {'',
      ustr ''            font-family: "Times New Roman", Times, serif;'',
      ustr ''            background-color: white;'',
      ustr ''            color: black;'',
      ustr ''            line-height: 1.6;'',
      ustr ''            margin: 0;'',
      ustr ''            padding: 40px;'',
      ustr ''            font-size: 14px;'',
      ustr ''        }'',
      ustr ''        '',
      ustr ''        .container {'',
      ustr ''            max-width: 900px;'',
      ustr ''            margin: 0 auto;'',
      ustr ''            padding: 0;'',
      ustr ''        }'',
      ustr ''        '',
      ustr ''        h1 {'',
      ustr ''            text-align: center;'',
      ustr ''            font-size: 20px;'',
      ustr ''            font-weight: bold;'',
      ustr ''            margin: 40px 0;'',
      ustr ''            line-height: 1.3;'',
      ustr ''            text-transform: uppercase;'',
      ustr ''        }'',
      ustr ''        '',
      ustr ''        .company-info {'',
      ustr ''            text-align: center;'',
      ustr ''            margin: 30px 0;'',
      ustr ''            font-style: italic;'',
      ustr ''        }'',
      ustr ''        '',
      ustr ''        p {'',
      ustr ''            margin: 16px 0;'',
      ustr ''            text-align: justify;'',
      ustr ''            text-indent: 0;'',
      ustr ''            line-height: 1.6;'',
      ustr ''        }'',
      ustr ''        '',
      ustr ''        .back-link {'',
      ustr ''            display: inline-block;'',
      ustr ''            margin-top: 50px;'',
      ustr ''            color: black;'',
      ustr ''            text-decoration: underline;'',
      ustr ''            font-weight: normal;'',
      ustr ''        }'',
      ustr ''        '',
      ustr ''        .back-link:hover {'',
      ustr ''            text-decoration: none;'',
      ustr ''        }'',
      ustr ''        '',
      ustr ''        strong {'',
      ustr ''            font-weight: bold;'',
      ustr ''        }'',
      ustr ''        '',
      ustr ''        em {'',
      ustr ''            font-style: italic;'',
      ustr ''        }'',
      ustr ''    </style>'',
      ustr ''</head>'',
      ustr ''<body>'',
      ustr ''    <div class="container">'',
      ustr ''        <h1>'' @ title @ ustr ''</h1>'',
      ustr ''        '',
      ustr ''        <div class="company-info">'',
      ustr ''            <p><strong>LOTUSLION VENTURE LLP</strong></p>'',
      ustr ''            <p><em>(A Limited Liability Partnership incorporated under the Limited Liability Partnership Act, 2008)</em></p>'',
      ustr ''        </div>'',
      []]\<close>

definition clean_legal_html_tail :: "ustring" where
  \<open>clean_legal_html_tail = join [10]
     [[],
      ustr ''        <a href="index.html" class="back-link">'' @ [8592] @ ustr '' Back to Course</a>'',
      ustr ''    </div>'',
      ustr ''</body>'',
      ustr ''</html>'']\<close>

text \<open>One paragraph element, \<open>f'        <p>{para}</p>\n'\<close>.\<close>

definition p_element :: "ustring \<Rightarrow> ustring" where
  "p_element para = ustr ''        <p>'' @ para @ ustr ''</p>'' @ [10]"

definition create_clean_legal_html :: "ustring \<Rightarrow> ustring list \<Rightarrow> ustring" where
  "create_clean_legal_html title paragraphs =
     clean_legal_html_head title @
     concat (map p_element (filter (\<lambda>para. strip para \<noteq> []) paragraphs)) @
     clean_legal_html_tail"

section \<open>The variant of \<open>extract_rtf_content.py\<close>\<close>

subsection \<open>\<open>extract_rtf_text\<close>\<close>

text \<open>Control group declarations, font and colour tables, page layout, paragraph controls.\<close>

definition extract_declarations :: "ustring \<Rightarrow> ustring" where
  "extract_declarations text =
     (let text = resub [Lit (kw ''rtf1''), Rep (not_chr 125) 0, Lit [125]] [] text;
          text = resub [Lit (kw ''cocoartf''), digits1] [] text;
          text = resub [Lit (kw ''cocoatextscaling''), digits1,
                        Lit (kw ''cocoaplatform''), digits1] [] text;
          text = resub [Lit (kw ''fonttbl''), Rep (not_chr 125) 0, Rep (is_chr 125) 1] [] text;
          text = resub [Lit (kw ''colortbl''), Rep (not_chr 125) 0, Rep (is_chr 125) 1] [] text;
          text = resub [Lit (kw ''expandedcolortbl''), Rep (not_chr 125) 0, Rep (is_chr 125) 1]
                   [] text;
          text = resub [Lit (kw ''paperw''), digits1, Lit (kw ''paperh''), digits1,
                        Lit (kw ''margl''), digits1, Lit (kw ''margr''), digits1,
                        Lit (kw ''vieww''), digits1, Lit (kw ''viewh''), digits1,
                        Lit (kw ''viewkind''), digits1] [] text;
          text = resub [Lit (kw ''deftab''), digits1] [] text;
          text = resub [Lit (kw ''pard''), Rep (not_chr 92) 0] [10, 10] text;
          text = resub [Lit (kw ''pardeftab''), digits1, Rep (not_chr 92) 0] [] text
      in text)"

text \<open>Font changes (the bold and italic markers), other font, colour and styling controls.\<close>

definition extract_fonts :: "ustring \<Rightarrow> ustring" where
  "extract_fonts text =
     (let text = resub [Lit (kw ''f0'' @ kw ''b'' @ kw ''fs''), digits1] (ustr ''**BOLD**'') text;
          text = resub [Lit (kw ''f0'' @ kw ''b'')] (ustr ''**BOLD**'') text;
          text = resub [Lit (kw ''f1'' @ kw ''b0'')] (ustr ''**NORMAL**'') text;
          text = resub [Lit (kw ''f2'' @ kw ''i'')] (ustr ''**ITALIC**'') text;
          text = resub [Lit (kw ''f1'' @ kw ''i0'')] (ustr ''**NORMAL**'') text;
          text = resub [Lit (kw ''f''), digits1] [] text;
          text = resub [Lit (kw ''fs''), digits1] [] text;
          text = resub [Lit (kw ''cf''), digits1] [] text;
          text = resub [Lit (kw ''strokec''), digits1] [] text;
          text = resub [Lit (kw ''expnd''), digits1, Lit (kw ''expndtw''), digits1,
                        Lit (kw ''kerning''), digits1] [] text;
          text = resub [Lit (kw ''outl''), digits1, Lit (kw ''strokewidth''), digits1] [] text
      in text)"

text \<open>Line breaks and special characters; then excessive whitespace.\<close>

definition extract_breaks :: "ustring \<Rightarrow> ustring" where
  "extract_breaks text =
     (let text = replace rupee_escape [8377] text;
          text = replace (kw ''uc0'' @ kw ''u8232'') [10] text;
          text = replace [92] [10] text;
          text = resub [Rep (is_chr 10) 3] [10, 10] text;
          text = resub [Rep (is_chr 32) 2] [32] text
      in text)"

text \<open>Any remaining RTF controls, and the braces.\<close>

definition extract_residual :: "ustring \<Rightarrow> ustring" where
  "extract_residual text =
     (let text = resub [Lit [92], Rep is_alpha 1, Rep is_digit 0] [] text;
          text = resub [Cls (\<lambda>c. c = 123 \<or> c = 125)] [] text
      in text)"

text \<open>
  The replacement \<open>r'<strong>\1</strong>'\<close>: group 1 of a match of
  \<open>\*\*BOLD\*\*([^*]*)\*\*NORMAL\*\*\<close> is the matched text without its literal ends, of
  \<open>a\<close> and \<open>b\<close> characters.
\<close>

definition wrap_group :: "nat \<Rightarrow> nat \<Rightarrow> ustring \<Rightarrow> ustring \<Rightarrow> ustring \<Rightarrow> ustring" where
  "wrap_group a b opening closing m = opening @ take (length m - a - b) (drop a m) @ closing"

text \<open>The body of the loop over the lines: what one line appends to \<open>lines\<close>.\<close>

definition extract_line :: "ustring \<Rightarrow> ustring list" where
  "extract_line l =
     (let line = strip l in
      if line \<noteq> [] \<and> \<not> startswith line [123] \<and> \<not> startswith line [125] then
        (let line = resub_fn [Lit (ustr ''**BOLD**''), Rep (not_chr 42) 0, Lit (ustr ''**NORMAL**'')]
                      (wrap_group 8 10 (ustr ''<strong>'') (ustr ''</strong>'')) line;
             line = resub_fn [Lit (ustr ''**ITALIC**''), Rep (not_chr 42) 0, Lit (ustr ''**NORMAL**'')]
                      (wrap_group 10 10 (ustr ''<em>'') (ustr ''</em>'')) line;
             line = resub [Lit (ustr ''**BOLD**'')] (ustr ''<strong>'') line;
             line = resub [Lit (ustr ''**NORMAL**'')] (ustr ''</strong>'') line;
             line = resub [Lit (ustr ''**ITALIC**'')] (ustr ''<em>'') line
         in if line \<noteq> [] then [line] else [])
      else [])"

definition extract_rtf_text :: "ustring \<Rightarrow> ustring" where
  "extract_rtf_text rtf_content =
     join [10] (concat (map extract_line (split_on 10
       (extract_residual (extract_breaks (extract_fonts (extract_declarations rtf_content)))))))"

subsection \<open>\<open>create_legal_html\<close>\<close>

text \<open>The first loop, which here appends \<open>current_para\<close> as it is.\<close>

fun legal_paragraphs :: "ustring list \<Rightarrow> ustring \<Rightarrow> ustring list" where
  "legal_paragraphs [] cur = (if cur \<noteq> [] then [cur] else [])"
| "legal_paragraphs (l # ls) cur =
     (let line = strip l in
      if line = [] then
        (if cur \<noteq> [] then cur # legal_paragraphs ls [] else legal_paragraphs ls cur)
      else
        (if cur \<noteq> [] then legal_paragraphs ls (cur @ [32] @ line)
         else legal_paragraphs ls line))"

definition legal_html_head :: "ustring \<Rightarrow> ustring" where
  \<open>legal_html_head title = join [10]
     [ustr ''<!DOCTYPE html>'',
      ustr ''<html lang="en">'',
      ustr ''<head>'',
      ustr ''    <meta charset="UTF-8">'',
      ustr ''    <meta name="viewport" content="width=device-width, initial-scale=1.0">'',
      ustr ''    <title>'' @ title @ ustr '' - Lotuslion Venture</title>'',
      ustr ''    <style>'',
      ustr ''        body {'',
      ustr ''            font-family: "Times New Roman", Times, serif;'',
      ustr ''            background-color: white;'',
      ustr ''            color: black;'',
      ustr ''            line-height: 1.5;'',
      ustr ''            margin: 0;'',
      ustr ''            padding: 40px;'',
      ustr ''            font-size: 14px;'',
      ustr ''        }'',
      ustr ''        '',
      ustr ''        .container {'',
      ustr ''            max-width: 800px;'',
      ustr ''            margin: 0 auto;'',
      ustr ''            padding: 0 20px;'',
      ustr ''        }'',
      ustr ''        '',
      ustr ''        h1 {'',
      ustr ''            text-align: center;'',
      ustr ''            font-size: 18px;'',
      ustr ''            font-weight: bold;'',
      ustr ''            margin: 30px 0;'',
      ustr ''            line-height: 1.3;'',
      ustr ''        }'',
      ustr ''        '',
      ustr ''        p {'',
      ustr ''            margin: 12px 0;'',
      ustr ''            text-align: justify;'',
      ustr ''            text-indent: 0;'',
      ustr ''        }'',
      ustr ''        '',
      ustr ''        .back-link {'',
      ustr ''            display: inline-block;'',
      ustr ''            margin-top: 40px;'',
      ustr ''            color: black;'',
      ustr ''            text-decoration: underline;'',
      ustr ''            font-weight: normal;'',
      ustr ''        }'',
      ustr ''        '',
      ustr ''        .back-link:hover {'',
      ustr ''            text-decoration: none;'',
      ustr ''        }'',
      ustr ''        '',
      ustr ''        strong {'',
      ustr ''            font-weight: bold;'',
      ustr ''        }'',
      ustr ''        '',
      ustr ''        em {'',
      ustr ''            font-style: italic;'',
      ustr ''        }'',
      ustr ''    </style>'',
      ustr ''</head>'',
      ustr ''<body>'',
      ustr ''    <div class="container">'',
      ustr ''        <h1>'' @ title @ ustr ''</h1>'',
      []]\<close>

definition legal_html_tail :: "ustring" where
  \<open>legal_html_tail = join [10]
     [[],
      ustr ''        <a href="index.html" class="back-link">'' @ [8592] @ ustr '' Back to Course</a>'',
      ustr ''    </div>'',
      ustr ''</body>'',
      ustr ''</html>'']\<close>

text \<open>\<open>html.escape(s, quote=False)\<close> of the standard library: three replacements.\<close>

definition html_escape :: "ustring \<Rightarrow> ustring" where
  "html_escape s =
     replace [62] (ustr ''&gt;'') (replace [60] (ustr ''&lt;'') (replace [38] (ustr ''&amp;'') s))"

text \<open>Escape HTML but preserve the formatting tags.\<close>

definition escape_para :: "ustring \<Rightarrow> ustring" where
  "escape_para para =
     (let para = html_escape para;
          para = replace (ustr ''&lt;/strong&gt;'') (ustr ''</strong>'')
                   (replace (ustr ''&lt;strong&gt;'') (ustr ''<strong>'') para);
          para = replace (ustr ''&lt;/em&gt;'') (ustr ''</em>'')
                   (replace (ustr ''&lt;em&gt;'') (ustr ''<em>'') para)
      in para)"

definition create_legal_html :: "ustring \<Rightarrow> ustring \<Rightarrow> ustring \<Rightarrow> ustring" where
  "create_legal_html title content filename =
     (let paragraphs = legal_paragraphs (split_on 10 content) [] in
      legal_html_head title @
      concat (map (\<lambda>para. p_element (escape_para para))
                (filter (\<lambda>para. strip para \<noteq> []) paragraphs)) @
      legal_html_tail)"

section \<open>The variant of \<open>manual_rtf_cleaner.py\<close>\<close>

subsection \<open>\<open>extract_clean_text_from_lines\<close>\<close>

definition line_number :: "atom list" where
  "line_number = [Rep is_space 0, Rep is_digit 1, Lit [8594]]"

text \<open>
  The body of the loop up to the last test: \<open>None\<close> when the line is skipped by a
  \<open>continue\<close>, else the cleaned line.
\<close>

definition manual_clean_line :: "ustring \<Rightarrow> ustring option" where
  "manual_clean_line l =
     (if startswith_any l [kw ''rtf'', kw ''cocoartf'', kw ''cocoatextscaling'', kw ''paperw'',
                           kw ''deftab''] then None
      else if startswith_any (strip l) [123 # kw ''fonttbl'', 123 # kw ''colortbl'',
                                        [123, 92, 42] @ kw ''expandedcolortbl''] then None
      else
        (let line = (if rematch line_number l then resub_start line_number [] l else l);
             line = strip line in
         if line = [] \<or> length line < 3 then None
         else
           (let line = resub rtf_command [32] line;
                line = replace [125] [] (replace [123] [] line);
                line = strip (resub [Rep is_space 1] [32] line)
            in Some line)))"

text \<open>The loop, with \<open>clean_lines\<close> as its state.\<close>

fun extract_loop :: "ustring list \<Rightarrow> ustring list \<Rightarrow> ustring list" where
  "extract_loop [] clean_lines = clean_lines"
| "extract_loop (l # ls) clean_lines =
     (case manual_clean_line l of
        None \<Rightarrow> extract_loop ls clean_lines
      | Some line \<Rightarrow>
          (if line \<noteq> [] \<and> \<not> startswith line [92] \<and> line \<notin> set clean_lines
           then extract_loop ls (clean_lines @ [line])
           else extract_loop ls clean_lines))"

definition extract_clean_text_from_lines :: "ustring list \<Rightarrow> ustring list" where
  "extract_clean_text_from_lines lines = extract_loop lines []"

subsection \<open>\<open>create_final_legal_html\<close>\<close>

definition final_legal_html_head :: "ustring \<Rightarrow> ustring" where
  \<open>final_legal_html_head title = join [10]
     [ustr ''<!DOCTYPE html>'',
      ustr ''<html lang="en">'',
      ustr ''<head>'',
      ustr ''    <meta charset="UTF-8">'',
      ustr ''    <meta name="viewport" content="width=device-width, initial-scale=1.0">'',
      ustr ''    <title>'' @ title @ ustr '' - Lotuslion Venture</title>'',
      ustr ''    <style>'',
      ustr ''        body {'',
      ustr ''            font-family: "Times New Roman", Times, serif;'',
      ustr ''            background-color: white;'',
      ustr ''            color: black;'',
      ustr ''            line-height: 1.6;'',
      ustr ''            margin: 0;'',
      ustr ''            padding: 40px;'',
      ustr ''            font-size: 14px;'',
      ustr ''        }'',
      ustr ''        '',
      ustr ''        .container {'',
      ustr ''            max-width: 900px;'',
      ustr ''            margin: 0 auto;'',
      ustr ''            padding: 0 20px;'',
      ustr ''        }'',
      ustr ''        '',
      ustr ''        h1 {'',
      ustr ''            text-align: center;'',
      ustr ''            font-size: 18px;'',
      ustr ''            font-weight: bold;'',
      ustr ''            margin: 40px 0;'',
      ustr ''            line-height: 1.3;'',
      ustr ''            text-transform: uppercase;'',
      ustr ''        }'',
      ustr ''        '',
      ustr ''        .company-info {'',
      ustr ''            text-align: center;'',
      ustr ''            margin: 30px 0;'',
      ustr ''            font-style: italic;'',
      ustr ''            font-size: 14px;'',
      ustr ''        }'',
      ustr ''        '',
      ustr ''        p {'',
      ustr ''            margin: 16px 0;'',
      ustr ''            text-align: justify;'',
      ustr ''            text-indent: 0;'',
      ustr ''            line-height: 1.6;'',
      ustr ''            font-size: 14px;'',
      ustr ''        }'',
      ustr ''        '',
      ustr ''        .back-link {'',
      ustr ''            display: inline-block;'',
      ustr ''            margin-top: 50px;'',
      ustr ''            color: black;'',
      ustr ''            text-decoration: underline;'',
      ustr ''            font-weight: normal;'',
      ustr ''        }'',
      ustr ''        '',
      ustr ''        .back-link:hover {'',
      ustr ''            text-decoration: none;'',
      ustr ''        }'',
      ustr ''        '',
      ustr ''        strong {'',
      ustr ''            font-weight: bold;'',
      ustr ''        }'',
      ustr ''        '',
      ustr ''        em {'',
      ustr ''            font-style: italic;'',
      ustr ''        }'',
      ustr ''    </style>'',
      ustr ''</head>'',
      ustr ''<body>'',
      ustr ''    <div class="container">'',
      ustr ''        <h1>'' @ title @ ustr ''</h1>'',
      ustr ''        '',
      ustr ''        <div class="company-info">'',
      ustr ''            <p><strong>LOTUSLION VENTURE LLP</strong></p>'',
      ustr ''            <p><em>(A Limited Liability Partnership incorporated under the Limited Liability Partnership Act, 2008)</em></p>'',
      ustr ''        </div>'',
      []]\<close>

definition final_legal_html_tail :: "ustring" where
  \<open>final_legal_html_tail = join [10]
     [[],
      ustr ''        <a href="index.html" class="back-link">'' @ [8592] @ ustr '' Back to Course</a>'',
      ustr ''    </div>'',
      ustr ''</body>'',
      ustr ''</html>'']\<close>

definition starts_paragraph :: "ustring \<Rightarrow> bool" where
  "starts_paragraph line \<longleftrightarrow>
     startswith_any line [ustr ''WHEREAS'', ustr ''AND WHEREAS'', ustr ''NOW THEREFORE'',
                          ustr ''ARTICLE'', ustr ''PREAMBLE'', ustr ''ACCEPTANCE ACKNOWLEDGMENT'',
                          ustr ''EFFECTIVE DATE''] \<or>
     rematch [digits1, Lit [46], digits1] line"

text \<open>
  The grouping loop: the paragraph elements added from the lines on, when
  \<open>current_paragraph\<close> is \<open>cur\<close>.
\<close>

fun final_paragraphs :: "ustring list \<Rightarrow> ustring \<Rightarrow> ustring" where
  "final_paragraphs [] cur = (if strip cur \<noteq> [] then p_element (strip cur) else [])"
| "final_paragraphs (line # ls) cur =
     (if strip line = [] then final_paragraphs ls cur
      else if starts_paragraph line then
        (if strip cur \<noteq> [] then p_element (strip cur) @ final_paragraphs ls line
         else final_paragraphs ls line)
      else
        (if cur \<noteq> [] then final_paragraphs ls (cur @ [32] @ line)
         else final_paragraphs ls line))"

definition create_final_legal_html :: "ustring \<Rightarrow> ustring list \<Rightarrow> ustring" where
  "create_final_legal_html title clean_text_lines =
     final_legal_html_head title @ final_paragraphs clean_text_lines [] @ final_legal_html_tail"

section \<open>Files and the batch\<close>

text \<open>
  The world of the \<open>main\<close> functions: the readable files and their text, the paths that
  can be opened for writing, and the lines printed so far.
\<close>

record world =
  files :: "ustring \<Rightarrow> ustring option"
  writable :: "ustring \<Rightarrow> bool"
  console :: "ustring list"

record file_info =
  rtf_file :: ustring
  html_file :: ustring
  title :: ustring

definition read_file :: "world \<Rightarrow> ustring \<Rightarrow> error + ustring" where
  "read_file w path = (case files w path of None \<Rightarrow> Inl (FileNotFoundError path) | Some c \<Rightarrow> Inr c)"

definition write_file :: "world \<Rightarrow> ustring \<Rightarrow> ustring \<Rightarrow> error + world" where
  "write_file w path c =
     (if writable w path then Inr (w\<lparr>files := (files w)(path \<mapsto> c)\<rparr>)
      else Inl (PermissionError path))"

definition print :: "ustring \<Rightarrow> world \<Rightarrow> world" where
  "print line w = w\<lparr>console := console w @ [line]\<rparr>"

text \<open>\<open>str(e)\<close> and \<open>str(n)\<close>.\<close>

definition str_error :: "error \<Rightarrow> ustring" where
  "str_error e =
     (case e of
        IndexError \<Rightarrow> ustr ''list index out of range''
      | FileNotFoundError path \<Rightarrow> ustr ''[Errno 2] No such file or directory: '' @ [39] @ path @ [39]
      | PermissionError path \<Rightarrow> ustr ''[Errno 13] Permission denied: '' @ [39] @ path @ [39])"

fun str_nat :: "nat \<Rightarrow> ustring" where
  "str_nat n = (if n < 10 then [48 + n] else str_nat (n div 10) @ [48 + n mod 10])"

definition files_to_process :: "file_info list" where
  "files_to_process =
     [\<lparr>rtf_file = ustr ''TERMS AND CONDITIONS OF SERVICE.txt'', html_file = ustr ''terms.html'',
       title = ustr ''TERMS AND CONDITIONS OF SERVICE''\<rparr>,
      \<lparr>rtf_file = ustr ''PRIVACY AND DATA PROTECTION POLICY.txt'', html_file = ustr ''privacy.html'',
       title = ustr ''PRIVACY AND DATA PROTECTION POLICY''\<rparr>,
      \<lparr>rtf_file = ustr ''POLICY FOR REFUND, RESTITUTION AND REVERSAL OF PECUNIARY CONSIDERATION.txt'',
       html_file = ustr ''refund.html'',
       title = ustr ''POLICY FOR REFUND, RESTITUTION AND REVERSAL OF PECUNIARY CONSIDERATION''\<rparr>]"

subsection \<open>\<open>main\<close> of \<open>advanced_rtf_processor.py\<close>\<close>

text \<open>The body of the \<open>try\<close>: the first exception ends it.\<close>

definition advanced_try :: "file_info \<Rightarrow> world \<Rightarrow> error + world" where
  "advanced_try fi w =
     (case read_file w (rtf_file fi) of
        Inl e \<Rightarrow> Inl e
      | Inr rtf_content \<Rightarrow>
          (case structure_legal_document (clean_rtf_content rtf_content) (title fi) of
             Inl e \<Rightarrow> Inl e
           | Inr paragraphs \<Rightarrow>
               (case write_file w (html_file fi)
                       (create_clean_legal_html (title fi) paragraphs) of
                  Inl e \<Rightarrow> Inl e
                | Inr w' \<Rightarrow>
                    Inr (print ([10003] @ ustr '' Successfully created '' @ html_file fi @
                                ustr '' with '' @ str_nat (length paragraphs) @
                                ustr '' paragraphs'') w'))))"

text \<open>One turn of the loop: the \<open>try\<close> and its \<open>except Exception\<close>.\<close>

definition advanced_file :: "file_info \<Rightarrow> world \<Rightarrow> world" where
  "advanced_file fi w0 =
     (let w = print (ustr ''Processing '' @ rtf_file fi @ ustr ''...'') w0 in
      case advanced_try fi w of
        Inl e \<Rightarrow> print ([10007] @ ustr '' Error processing '' @ rtf_file fi @ ustr '': '' @
                       str_error e) w
      | Inr w' \<Rightarrow> w')"

fun advanced_loop :: "file_info list \<Rightarrow> world \<Rightarrow> world" where
  "advanced_loop [] w = w"
| "advanced_loop (fi # rest) w = advanced_loop rest (advanced_file fi w)"

definition advanced_main :: "world \<Rightarrow> world" where
  "advanced_main w = advanced_loop files_to_process w"

subsection \<open>\<open>main\<close> of \<open>extract_rtf_content.py\<close>\<close>

text \<open>
  This loop has no \<open>try\<close>: an exception leaves the loop and the program. The result is
  the world at that moment and the exception, if any.
\<close>

fun extract_loop_main :: "file_info list \<Rightarrow> world \<Rightarrow> world \<times> error option" where
  "extract_loop_main [] w = (w, None)"
| "extract_loop_main (fi # rest) w0 =
     (let w = print (ustr ''Processing '' @ rtf_file fi @ ustr ''...'') w0 in
      case read_file w (rtf_file fi) of
        Inl e \<Rightarrow> (w, Some e)
      | Inr rtf_content \<Rightarrow>
          (case write_file w (html_file fi)
                  (create_legal_html (title fi) (extract_rtf_text rtf_content) (html_file fi)) of
             Inl e \<Rightarrow> (w, Some e)
           | Inr w' \<Rightarrow> extract_loop_main rest (print (ustr ''Created '' @ html_file fi) w')))"

definition extract_main :: "world \<Rightarrow> world \<times> error option" where
  "extract_main w = extract_loop_main files_to_process w"

subsection \<open>\<open>process_single_file\<close> of \<open>manual_rtf_cleaner.py\<close>\<close>

definition manual_try :: "ustring \<Rightarrow> ustring \<Rightarrow> ustring \<Rightarrow> world \<Rightarrow> error + world" where
  "manual_try rtf html ttl w0 =
     (let w = print (ustr ''Processing '' @ rtf @ ustr ''...'') w0 in
      case read_file w rtf of
        Inl e \<Rightarrow> Inl e
      | Inr content \<Rightarrow>
          (case write_file w html
                  (create_final_legal_html ttl
                     (extract_clean_text_from_lines (split_on 10 content))) of
             Inl e \<Rightarrow> Inl e
           | Inr w' \<Rightarrow> Inr (print ([10003] @ ustr '' Successfully created '' @ html) w')))"

definition process_single_file :: "ustring \<Rightarrow> ustring \<Rightarrow> ustring \<Rightarrow> world \<Rightarrow> world" where
  "process_single_file rtf html ttl w0 =
     (case manual_try rtf html ttl w0 of
        Inl e \<Rightarrow> print ([10007] @ ustr '' Error processing '' @ rtf @ ustr '': '' @ str_error e)
                   (print (ustr ''Processing '' @ rtf @ ustr ''...'') w0)
      | Inr w' \<Rightarrow> w')"

section \<open>Auxiliary notions\<close>

text \<open>A text that is not empty and does not end with whitespace.\<close>

definition trimmed :: "ustring \<Rightarrow> bool" where
  "trimmed p \<longleftrightarrow> p \<noteq> [] \<and> \<not> is_space (last p)"







section \<open>Inputs of the scenarios\<close>

text \<open>
  The input of the example scenario:
  \<open>\pard\f0\b\fs24 WHEREAS the parties agree\f1\b0 as follows.\pard next paragraph.\<close>
\<close>

definition scenario_input :: ustring where
  "scenario_input =
     kw ''pard'' @ kw ''f0'' @ kw ''b'' @ kw ''fs24 WHEREAS the parties agree'' @ kw ''f1'' @
     kw ''b0 as follows.'' @ kw ''pard next paragraph.''"

text \<open>A residual control marker between two words: \<open>agree\par next\<close>.\<close>

definition residual_input :: ustring where
  "residual_input = ustr ''agree'' @ kw ''par next''"

text \<open>
  A world in which the first input file of the batch is missing and the other two are
  there; every path can be written.
\<close>

definition batch_world :: world where
  "batch_world =
     \<lparr>files = [ustr ''PRIVACY AND DATA PROTECTION POLICY.txt'' \<mapsto> ustr ''Privacy text'',
               ustr ''POLICY FOR REFUND, RESTITUTION AND REVERSAL OF PECUNIARY CONSIDERATION.txt''
                 \<mapsto> ustr ''Refund text''],
      writable = (\<lambda>path. True), console = []\<rparr>"

text \<open>Two paragraph-reset markers with no text between them: \<open>\pard\pard\f0 Some text\<close>.\<close>

definition two_resets :: ustring where
  "two_resets = kw ''pard'' @ kw ''pard'' @ kw ''f0 Some text''"

text \<open>
  A sentence, a paragraph reset and a second sentence:
  \<open>The Buyer shall pay.\pard The Seller shall deliver.\<close>
\<close>

definition reset_input :: ustring where
  "reset_input = ustr ''The Buyer shall pay.'' @ kw ''pard The Seller shall deliver.''"

text \<open>
  An italic span whose text ends with an asterisk, followed by ordinary text:
  \<open>\f2\i force majeure*\f1\i0 applies\<close>.
\<close>

definition italic_input :: ustring where
  "italic_input = kw ''f2'' @ kw ''i force majeure*'' @ kw ''f1'' @ kw ''i0 applies''"

text \<open>
  A paragraph reset, a label, the rupee escape and an amount:
  \<open>\pard Fee: \uc0\u8377 500\<close>.
\<close>

definition rupee_input :: ustring where
  "rupee_input = kw ''pard Fee: '' @ rupee_escape @ ustr '' 500''"


section \<open>Evaluation\<close>

text \<open>Below the Arabic-Indic digits, \<open>\d\<close> is \<open>[0-9]\<close>.\<close>

lemma is_digit_ascii: "c < 1632 \<Longrightarrow> is_digit c \<longleftrightarrow> 48 \<le> c \<and> c \<le> 57"
  by (auto simp: is_digit_def digit_ranges_def)

lemmas eval_defs = kw_def ustr_def resub_def not_chr_def is_chr_def PARA_BREAK_def is_word_def
  is_alpha_def is_digit_ascii digits1_def is_space_def
  clean_step1_def clean_step2_def clean_step3_def clean_step4_def clean_step5_def clean_step6_def
  clean_step7_def clean_step8_def clean_line_def
  clean_rtf_content_def rupee_escape_def rtf_command_def strip_def resub_start_def rematch_def
  startswith_any_def split_once_def
  mark_recital_def mark_article_def mark_section_def format_paragraph_def
  structure_legal_document_def recover_def

section \<open>Whitespace, trimming and the whitespace pattern\<close>

lemma nonblank_iff: "strip s \<noteq> [] \<longleftrightarrow> (\<exists>c\<in>set s. \<not> is_space c)"
proof
  assume "strip s \<noteq> []"
  then show "\<exists>c\<in>set s. \<not> is_space c"
    by (auto simp: strip_def dropWhile_eq_Nil_conv dest: set_dropWhileD)
next
  assume "\<exists>c\<in>set s. \<not> is_space c"
  then have ne: "dropWhile is_space s \<noteq> []" by (auto simp: dropWhile_eq_Nil_conv)
  then have "\<not> is_space (hd (dropWhile is_space s))" by (rule hd_dropWhile)
  moreover have "hd (dropWhile is_space s) \<in> set (rev (dropWhile is_space s))"
    using ne by simp
  ultimately have "dropWhile is_space (rev (dropWhile is_space s)) \<noteq> []"
    by (auto simp: dropWhile_eq_Nil_conv simp del: set_rev)
  then show "strip s \<noteq> []" by (simp add: strip_def)
qed

lemma strip_last: "strip s \<noteq> [] \<Longrightarrow> \<not> is_space (last (strip s))"
proof -
  assume a: "strip s \<noteq> []"
  let ?r = "dropWhile is_space (rev (dropWhile is_space s))"
  from a have ne: "?r \<noteq> []" by (simp add: strip_def)
  then have "\<not> is_space (hd ?r)" by (rule hd_dropWhile)
  moreover have "last (strip s) = hd ?r" using ne by (simp add: strip_def last_rev)
  ultimately show ?thesis by simp
qed

lemma strip_subset: "set (strip s) \<subseteq> set s"
proof -
  have "set (strip s) = set (dropWhile is_space (rev (dropWhile is_space s)))"
    by (simp add: strip_def)
  also have "\<dots> \<subseteq> set (rev (dropWhile is_space s))" by (auto dest: set_dropWhileD)
  also have "\<dots> \<subseteq> set s" by (auto dest: set_dropWhileD)
  finally show ?thesis .
qed

lemma rmatch_Rep0: "rmatch [Rep C 0] s = Some (dropWhile C s)"
  by (induction s) auto

lemma rmatch_Rep1:
  "rmatch [Rep C (Suc 0)] s =
     (case s of [] \<Rightarrow> None | c # cs \<Rightarrow> if C c then Some (dropWhile C cs) else None)"
proof (cases s)
  case Nil
  then show ?thesis by simp
next
  case (Cons c cs)
  show ?thesis
    unfolding Cons by (subst rmatch.simps) (simp add: rmatch_Rep0 del: rmatch.simps)
qed

lemma ws_norm_filter:
  "filter (\<lambda>c. \<not> is_space c) (resub_fn [Rep is_space 1] (\<lambda>m. [32]) s) = filter (\<lambda>c. \<not> is_space c) s"
proof (induction "[Rep is_space 1]" "\<lambda>m::ustring. [32::nat]" s rule: resub_fn.induct)
  case 1
  show ?case by simp
next
  case (2 c cs)
  show ?case
  proof (cases "is_space c")
    case True
    then have m: "rmatch [Rep is_space 1] (c # cs) = Some (dropWhile is_space cs)"
      using rmatch_Rep1 [of is_space "c # cs"] by simp
    have len: "length (dropWhile is_space cs) < length (c # cs)"
      using length_dropWhile_le [of is_space cs] by simp
    have "filter (\<lambda>c. \<not> is_space c) (dropWhile is_space cs) = filter (\<lambda>c. \<not> is_space c) cs"
      by (induction cs) auto
    with 2(2) [OF m len] True m len show ?thesis
      by (simp add: is_space_def del: rmatch.simps)
  next
    case False
    then have m: "rmatch [Rep is_space 1] (c # cs) = None"
      using rmatch_Rep1 [of is_space "c # cs"] by simp
    with 2(1) [OF m] False show ?thesis by (simp del: rmatch.simps)
  qed
qed

lemma ws_norm_last_aux:
  "p = [Rep is_space 1] \<Longrightarrow> s \<noteq> [] \<Longrightarrow> \<not> is_space (last s) \<Longrightarrow>
   resub_fn p (\<lambda>m. [32]) s \<noteq> [] \<and> last (resub_fn p (\<lambda>m. [32]) s) = last s"
proof (induction p "\<lambda>m::ustring. [32::nat]" s rule: resub_fn.induct)
  case (1 p)
  then show ?case by simp
next
  case (2 p c cs)
  note p = "2.prems"(1)
  show ?case
  proof (cases "is_space c")
    case True
    then have m: "rmatch p (c # cs) = Some (dropWhile is_space cs)"
      using rmatch_Rep1 [of is_space "c # cs"] p by simp
    have len: "length (dropWhile is_space cs) < length (c # cs)"
      using length_dropWhile_le [of is_space cs] by simp
    from True "2.prems"(3) have cs: "cs \<noteq> []" by auto
    with "2.prems"(3) have lc: "\<not> is_space (last cs)" by simp
    then have ne: "dropWhile is_space cs \<noteq> []"
      using cs by (auto simp: dropWhile_eq_Nil_conv)
    have "\<exists>pre. cs = pre @ dropWhile is_space cs"
      by (metis takeWhile_dropWhile_id)
    then have ld: "last (dropWhile is_space cs) = last cs"
      using ne by (metis last_appendR)
    from lc ld have lnd: "\<not> is_space (last (dropWhile is_space cs))" by simp
    from "2.hyps"(2) [OF m len p ne lnd] ld
    have "resub_fn p (\<lambda>m. [32]) (dropWhile is_space cs) \<noteq> [] \<and>
          last (resub_fn p (\<lambda>m. [32]) (dropWhile is_space cs)) = last cs"
      by simp
    with m len cs show ?thesis by (simp del: rmatch.simps)
  next
    case False
    then have m: "rmatch p (c # cs) = None"
      using rmatch_Rep1 [of is_space "c # cs"] p by simp
    show ?thesis
    proof (cases "cs = []")
      case True
      have "rmatch p [] = None" using p by simp
      with m True show ?thesis by (simp del: rmatch.simps)
    next
      case ne: False
      with "2.prems"(3) have "\<not> is_space (last cs)" by simp
      from "2.hyps"(1) [OF m p ne this] m ne show ?thesis by (simp del: rmatch.simps)
    qed
  qed
qed

lemma ws_norm_last:
  "s \<noteq> [] \<Longrightarrow> \<not> is_space (last s) \<Longrightarrow>
   resub [Rep is_space 1] [32] s \<noteq> [] \<and> last (resub [Rep is_space 1] [32] s) = last s"
  unfolding resub_def by (rule ws_norm_last_aux) simp_all

lemma split_ws_Nil_iff: "split_ws s = [] \<longleftrightarrow> strip s = []"
proof (cases "dropWhile is_space s")
  case Nil
  have "split_ws s = []" by (subst split_ws.simps) (simp only: Nil list.case)
  moreover have "strip s = []" unfolding strip_def Nil by simp
  ultimately show ?thesis by simp
next
  case (Cons c cs)
  have "split_ws s \<noteq> []" by (subst split_ws.simps) (simp only: Cons list.case, simp)
  moreover have "strip s \<noteq> []"
  proof -
    have "dropWhile is_space s \<noteq> []" unfolding Cons by simp
    then have "\<not> is_space (hd (dropWhile is_space s))" by (rule hd_dropWhile)
    moreover have "hd (dropWhile is_space s) \<in> set s"
      using Cons by (metis list.sel(1) list.set_intros(1) set_dropWhileD)
    ultimately show ?thesis by (auto simp: nonblank_iff)
  qed
  ultimately show ?thesis by simp
qed

section \<open>Paragraphs are never blank\<close>

lemma strip_strip_ne: "strip s \<noteq> [] \<Longrightarrow> strip (strip s) \<noteq> []"
proof -
  assume a: "strip s \<noteq> []"
  then have "\<not> is_space (last (strip s))" by (rule strip_last)
  moreover have "last (strip s) \<in> set (strip s)" using a by simp
  ultimately show ?thesis unfolding nonblank_iff by blast
qed

lemma trimmed_nonblank: "trimmed p \<Longrightarrow> strip p \<noteq> []"
  unfolding trimmed_def nonblank_iff by (metis last_in_set)

lemma trimmed_strip: "strip s \<noteq> [] \<Longrightarrow> trimmed (strip s)"
  by (simp add: trimmed_def strip_last)

lemma collect_paragraphs_trimmed:
  "cur = [] \<or> strip cur \<noteq> [] \<Longrightarrow> \<forall>p\<in>set (collect_paragraphs ls cur). trimmed p"
proof (induction ls arbitrary: cur)
  case Nil
  then show ?case by (auto simp: trimmed_strip)
next
  case (Cons l ls)
  have app: "strip (cur @ [32] @ strip l) \<noteq> []" if "strip l \<noteq> []"
    using strip_strip_ne [OF that] unfolding nonblank_iff by auto
  have one: "strip (strip l) \<noteq> []" if "strip l \<noteq> []"
    using that by (rule strip_strip_ne)
  show ?case
    using Cons.prems Cons.IH [of "[]"] Cons.IH [of "cur @ [32] @ strip l"]
      Cons.IH [of "strip l"] Cons.IH [of cur] app one
    by (auto simp: Let_def trimmed_strip)
qed

lemma not_digit_lt: "\<not> is_digit 60"
  by (simp add: is_digit_def digit_ranges_def)

lemma not_space_lt: "\<not> is_space 60"
  by (simp add: is_space_def)

lemma mark_section_lt: "mark_section (60 # xs) = Inr (60 # xs)"
  by (simp add: mark_section_def rematch_def digits1_def not_digit_lt)

lemma mark_article_cases:
  "mark_article x = x \<or> (\<exists>xs. mark_article x = 60 # xs)"
  by (simp add: mark_article_def ustr_def)

lemma nonblank_lt: "strip (60 # xs) \<noteq> []"
  unfolding nonblank_iff using not_space_lt by auto

lemma mark_section_ok:
  assumes "trimmed x"
  shows "\<exists>q. mark_section x = Inr q \<and> strip q \<noteq> []"
proof (cases "rematch [digits1, Lit [46], digits1] x \<and> 32 \<in> set x")
  case False
  then show ?thesis
    using trimmed_nonblank [OF assms] by (auto simp: mark_section_def split_once_def Let_def)
next
  case True
  let ?r = "tl (dropWhile (\<lambda>c. c \<noteq> 32) x)"
  from True have dw: "dropWhile (\<lambda>c. c \<noteq> 32) x \<noteq> []"
    by (auto simp: dropWhile_eq_Nil_conv)
  then have hd32: "hd (dropWhile (\<lambda>c. c \<noteq> 32) x) = 32"
    using hd_dropWhile [of "\<lambda>c. c \<noteq> 32" x] by simp
  have sp: "is_space 32" by (simp add: is_space_def)
  have lastx: "last (dropWhile (\<lambda>c. c \<noteq> 32) x) = last x"
    using dw by (metis last_appendR takeWhile_dropWhile_id)
  have rne: "?r \<noteq> []"
  proof
    assume "?r = []"
    with dw hd32 have "dropWhile (\<lambda>c. c \<noteq> 32) x = [32]"
      by (cases "dropWhile (\<lambda>c. c \<noteq> 32) x") auto
    with lastx have "last x = 32" by simp
    with assms sp show False by (simp add: trimmed_def)
  qed
  have "last ?r = last x"
    using rne dw lastx by (cases "dropWhile (\<lambda>c. c \<noteq> 32) x") auto
  with rne assms have "trimmed ?r" by (simp add: trimmed_def)
  then have "split_ws ?r \<noteq> []"
    using trimmed_nonblank by (simp add: split_ws_Nil_iff del: split_ws.simps)
  then obtain w ws where ws: "split_ws ?r = w # ws" by (cases "split_ws ?r") auto
  have "mark_section x =
      Inr (ustr ''<strong>'' @ takeWhile (\<lambda>c. c \<noteq> 32) x @ [32] @ w @ ustr ''</strong> '' @
           join [32] ws)"
    using True ws by (simp add: mark_section_def split_once_def Let_def)
  moreover have "strip (ustr ''<strong>'' @ takeWhile (\<lambda>c. c \<noteq> 32) x @ [32] @ w @
      ustr ''</strong> '' @ join [32] ws) \<noteq> []"
    using nonblank_lt by (simp add: ustr_def)
  ultimately show ?thesis by blast
qed

lemma format_paragraph_ok:
  assumes "trimmed p"
  shows "\<exists>q. format_paragraph p = Inr q \<and> strip q \<noteq> []"
proof -
  let ?n = "resub [Rep is_space 1] [32] p"
  from assms have n: "trimmed ?n"
    using ws_norm_last [of p] by (simp add: trimmed_def)
  show ?thesis
  proof (cases "startswith_any ?n [ustr ''WHEREAS'', ustr ''AND WHEREAS'', ustr ''NOW THEREFORE'']")
    case True
    from n have "split_ws ?n \<noteq> []"
      using trimmed_nonblank by (simp add: split_ws_Nil_iff del: split_ws.simps)
    then obtain w ws where ws: "split_ws ?n = w # ws" by (cases "split_ws ?n") auto
    obtain xs where r: "mark_recital ?n = Inr (60 # xs)"
      using True ws by (simp add: mark_recital_def ustr_def)
    have "mark_article (60 # xs) = 60 # xs"
      by (simp add: mark_article_def ustr_def)
    with r show ?thesis
      by (simp add: format_paragraph_def Let_def mark_section_lt nonblank_lt)
  next
    case False
    then have r: "mark_recital ?n = Inr ?n" by (simp add: mark_recital_def)
    from mark_article_cases [of ?n] show ?thesis
    proof
      assume "mark_article ?n = ?n"
      with r mark_section_ok [OF n] show ?thesis
        by (simp add: format_paragraph_def Let_def)
    next
      assume "\<exists>xs. mark_article ?n = 60 # xs"
      then obtain xs where "mark_article ?n = 60 # xs" ..
      with r show ?thesis
        by (simp add: format_paragraph_def Let_def mark_section_lt nonblank_lt)
    qed
  qed
qed

lemma html_parts_ok:
  "\<forall>p\<in>set ps. trimmed p \<Longrightarrow>
   \<exists>qs. html_parts ps = Inr qs \<and> length qs = length ps \<and> (\<forall>q\<in>set qs. strip q \<noteq> [])"
proof (induction ps)
  case Nil
  then show ?case by simp
next
  case (Cons p ps)
  then obtain qs where qs: "html_parts ps = Inr qs" "length qs = length ps"
      "\<forall>q\<in>set qs. strip q \<noteq> []" by auto
  from Cons.prems have t: "trimmed p" by simp
  obtain q where q: "format_paragraph p = Inr q" "strip q \<noteq> []"
    using format_paragraph_ok [OF t] by blast
  from t qs q show ?case by (simp add: trimmed_nonblank)
qed

text \<open>
  C4: for every input the recovery engine returns a Document (it raises no exception), and
  no paragraph of it is empty or only whitespace.
\<close>

theorem no_blank_paragraph:
  "\<exists>ps. recover raw t = Inr ps \<and> (\<forall>p\<in>set ps. strip p \<noteq> [])"
proof -
  have "\<forall>p\<in>set (collect_paragraphs (split_on 10 (clean_rtf_content raw)) []). trimmed p"
    by (rule collect_paragraphs_trimmed) simp
  from html_parts_ok [OF this] show ?thesis
    by (auto simp: recover_def structure_legal_document_def)
qed

section \<open>Clean plain text\<close>














section \<open>HTML escaping\<close>























section \<open>The example scenario of the recovery engine\<close>

lemma scenario_value:
  "recover scenario_input t =
     Inr [ustr ''<strong> WHEREAS the parties agree</strong> as follows.'']"
  by (simp add: scenario_input_def eval_defs)

lemma scenario_manual_value:
  "extract_clean_text_from_lines [scenario_input] =
     [ustr ''WHEREAS the parties agree as follows. next paragraph.'']"
  by (simp add: extract_clean_text_from_lines_def manual_clean_line_def line_number_def
      scenario_input_def eval_defs)

text \<open>
  C2 at its own input: the engine returns exactly one paragraph,
  \<open><strong> WHEREAS the parties agree</strong> as follows.\<close>, and not the two paragraphs of
  the scenario. The pattern for the paragraph reset takes every character up to the next
  backslash with the marker, so the text \<open>next paragraph.\<close> is deleted; the emphasis
  opens in front of the space that ends the bold marker. The sibling
  \<open>extract_clean_text_from_lines\<close> keeps the text of the second paragraph on the same
  input.
\<close>

theorem scenario_loses_second_paragraph:
  "recover scenario_input t =
     Inr [ustr ''<strong> WHEREAS the parties agree</strong> as follows.''] \<and>
   extract_clean_text_from_lines [scenario_input] =
     [ustr ''WHEREAS the parties agree as follows. next paragraph.'']"
  by (simp only: scenario_value scenario_manual_value)

section \<open>Deduplication in \<open>manual_rtf_cleaner.py\<close>\<close>

lemma extract_loop_distinct: "distinct acc \<Longrightarrow> distinct (extract_loop ls acc)"
  by (induction ls arbitrary: acc) (auto split: option.splits)

lemma extract_loop_append:
  "extract_loop (xs @ ys) acc = extract_loop ys (extract_loop xs acc)"
  by (induction xs arbitrary: acc) (auto split: option.splits)

lemma manual_clean_line_example:
  "manual_clean_line (ustr ''Clause one'') = Some (ustr ''Clause one'')"
  by (simp add: manual_clean_line_def line_number_def eval_defs)

lemma extract_clean_text_example:
  "extract_clean_text_from_lines [ustr ''Clause one''] = [ustr ''Clause one'']"
  by (simp add: extract_clean_text_from_lines_def manual_clean_line_example) (simp add: ustr_def)

text \<open>
  C9: \<open>extract_clean_text_from_lines\<close> emits each cleaned line at most once, and a later
  source line whose cleaned text is already in the output changes nothing: it is dropped.
\<close>

theorem manual_lines_deduplicated:
  "distinct (extract_clean_text_from_lines lines) \<and>
   (manual_clean_line l = Some c \<and> c \<in> set (extract_clean_text_from_lines lines) \<longrightarrow>
      extract_clean_text_from_lines (lines @ [l]) = extract_clean_text_from_lines lines)"
  by (simp add: extract_clean_text_from_lines_def extract_loop_distinct extract_loop_append)

theorem manual_lines_deduplicated_witness:
  "manual_clean_line (ustr ''Clause one'') = Some (ustr ''Clause one'') \<and>
   ustr ''Clause one'' \<in> set (extract_clean_text_from_lines [ustr ''Clause one'']) \<and>
   distinct (extract_clean_text_from_lines [ustr ''Clause one'']) \<and>
   extract_clean_text_from_lines ([ustr ''Clause one''] @ [ustr ''Clause one'']) =
     [ustr ''Clause one'']"
  using manual_lines_deduplicated [of "[ustr ''Clause one'']" "ustr ''Clause one''"
      "ustr ''Clause one''"]
  by (simp add: manual_clean_line_example extract_clean_text_example)

section \<open>Residual control stripping\<close>

lemmas extract_defs = extract_rtf_text_def extract_declarations_def extract_fonts_def
  extract_breaks_def extract_residual_def extract_line_def wrap_group_def

lemma extract_residual_value:
  "extract_rtf_text residual_input = ustr ''agree'' @ [10] @ ustr ''par next''"
  by (simp add: residual_input_def extract_defs eval_defs)

lemma clean_residual_value: "clean_rtf_content residual_input = ustr ''agree next''"
  by (simp add: residual_input_def eval_defs)

text \<open>
  C7 at the input \<open>agree\par next\<close>: \<open>clean_rtf_content\<close> puts one space where the
  marker \<open>\par\<close> stood, but \<open>extract_rtf_text\<close>, which has turned every backslash into a
  newline before its pattern for the remaining controls runs, keeps the keyword \<open>par\<close> as
  text of the next line.
\<close>

theorem residual_marker_leaks_in_extract:
  "extract_rtf_text residual_input = ustr ''agree'' @ [10] @ ustr ''par next'' \<and>
   clean_rtf_content residual_input = ustr ''agree next''"
  by (simp only: extract_residual_value clean_residual_value)

section \<open>The batch\<close>

lemma extract_loop_main_missing:
  "files w (rtf_file fi) = None \<Longrightarrow>
   extract_loop_main (fi # rest) w =
     (print (ustr ''Processing '' @ rtf_file fi @ ustr ''...'') w,
      Some (FileNotFoundError (rtf_file fi)))"
  by (simp add: read_file_def print_def)

lemma advanced_file_missing:
  "files w (rtf_file fi) = None \<Longrightarrow>
   advanced_loop (fi # rest) w =
     advanced_loop rest
       (print ([10007] @ ustr '' Error processing '' @ rtf_file fi @ ustr '': '' @
               str_error (FileNotFoundError (rtf_file fi)))
          (print (ustr ''Processing '' @ rtf_file fi @ ustr ''...'') w))"
  by (simp add: advanced_file_def advanced_try_def read_file_def print_def)

lemma terms_missing:
  "files batch_world (ustr ''TERMS AND CONDITIONS OF SERVICE.txt'') = None"
  by (simp add: batch_world_def ustr_def)

text \<open>
  C6 at the world \<open>batch_world\<close>, whose first input file is missing: \<open>main\<close> of
  \<open>extract_rtf_content.py\<close> ends with the exception of the first \<open>open\<close>, and neither of
  the two other output files is written, although their inputs are there.
\<close>

theorem extract_main_aborts:
  "extract_main batch_world =
     (print (ustr ''Processing TERMS AND CONDITIONS OF SERVICE.txt...'') batch_world,
      Some (FileNotFoundError (ustr ''TERMS AND CONDITIONS OF SERVICE.txt''))) \<and>
   files (fst (extract_main batch_world)) (ustr ''privacy.html'') = None \<and>
   files (fst (extract_main batch_world)) (ustr ''refund.html'') = None"
proof -
  have e: "extract_main batch_world =
     (print (ustr ''Processing '' @ ustr ''TERMS AND CONDITIONS OF SERVICE.txt'' @ ustr ''...'')
        batch_world,
      Some (FileNotFoundError (ustr ''TERMS AND CONDITIONS OF SERVICE.txt'')))"
    unfolding extract_main_def files_to_process_def
    by (subst extract_loop_main_missing) (simp_all add: terms_missing)
  have c: "ustr ''Processing '' @ ustr ''TERMS AND CONDITIONS OF SERVICE.txt'' @ ustr ''...'' =
     ustr ''Processing TERMS AND CONDITIONS OF SERVICE.txt...''"
    by (simp add: ustr_def)
  have f: "files (print l batch_world) (ustr ''privacy.html'') = None \<and>
           files (print l batch_world) (ustr ''refund.html'') = None" for l
    by (simp add: print_def batch_world_def ustr_def)
  show ?thesis
    using f by (simp add: e c)
qed

section \<open>Two paragraph resets in a row\<close>

lemma two_resets_value: "recover two_resets t = Inr [ustr ''Some text'']"
  by (simp add: two_resets_def eval_defs)

text \<open>
  In particular two paragraph-reset markers with no text between them give no empty
  paragraph: the Document is the one paragraph \<open>Some text\<close>.
\<close>

theorem no_blank_paragraph_witness:
  "recover two_resets (ustr ''T'') = Inr [ustr ''Some text''] \<and>
   strip (ustr ''Some text'') \<noteq> []"
  using no_blank_paragraph [of two_resets "ustr ''T''"] by (simp add: two_resets_value)

section \<open>Text behind a paragraph reset\<close>

lemma reset_value: "recover reset_input t = Inr [ustr ''The Buyer shall pay.'']"
  by (simp add: reset_input_def eval_defs)

lemma reset_manual_value:
  "extract_clean_text_from_lines [reset_input] =
     [ustr ''The Buyer shall pay. The Seller shall deliver.'']"
  by (simp add: extract_clean_text_from_lines_def manual_clean_line_def line_number_def
      reset_input_def eval_defs)

text \<open>
  C1 at the input \<open>The Buyer shall pay.\pard The Seller shall deliver.\<close>: the recovery
  engine returns the one paragraph \<open>The Buyer shall pay.\<close>; every content character of
  the second sentence is dropped with the paragraph reset. The sibling
  \<open>extract_clean_text_from_lines\<close> keeps both sentences.
\<close>

theorem reset_drops_content:
  "recover reset_input t = Inr [ustr ''The Buyer shall pay.''] \<and>
   extract_clean_text_from_lines [reset_input] =
     [ustr ''The Buyer shall pay. The Seller shall deliver.'']"
  by (simp only: reset_value reset_manual_value)

section \<open>An italic span closed as bold\<close>

lemma italic_extract_value:
  "extract_rtf_text italic_input = ustr ''<em> force majeure*</strong> applies''"
  by (simp add: italic_input_def extract_defs eval_defs)

lemma italic_recover_value:
  "recover italic_input t = Inr [ustr ''<em> force majeure*</em> applies'']"
  by (simp add: italic_input_def eval_defs)

text \<open>
  C3 at the input \<open>\f2\i force majeure*\f1\i0 applies\<close>, one italic span with its start
  and its end marker: \<open>extract_rtf_text\<close> opens the span with \<open><em>\<close> and closes it with
  \<open></strong>\<close>, so the italic start has no matching end. Both end markers become the
  same token \<open>**NORMAL**\<close>, the pairing pattern does not cross the asterisk, and the
  token left over is always written as \<open></strong>\<close>. The recovery engine of
  \<open>advanced_rtf_processor.py\<close> closes the same span with \<open></em>\<close>.
\<close>

theorem italic_span_closed_as_bold:
  "extract_rtf_text italic_input = ustr ''<em> force majeure*</strong> applies'' \<and>
   recover italic_input t = Inr [ustr ''<em> force majeure*</em> applies'']"
  by (simp only: italic_extract_value italic_recover_value)

section \<open>The rupee escape behind a paragraph reset\<close>

lemma rupee_not_digit: "\<not> is_digit 8377"
  by (simp add: is_digit_def digit_ranges_def)

lemma rupee_value: "recover rupee_input t = Inr [[8377] @ ustr '' 500'']"
  by (simp add: rupee_input_def rupee_not_digit eval_defs)

lemma rupee_extract_value: "extract_rtf_text rupee_input = [8377] @ ustr '' 500''"
  by (simp add: rupee_input_def extract_defs eval_defs)

text \<open>
  C8 at the input \<open>\pard Fee: \uc0\u8377 500\<close>: the glyph (code point 8377) is emitted
  and the amount behind it is kept, but the label \<open>Fee: \<close> immediately in front of the
  escape is deleted with the paragraph reset, in the recovery engine and in
  \<open>extract_rtf_text\<close> alike.
\<close>

theorem rupee_label_deleted:
  "recover rupee_input t = Inr [[8377] @ ustr '' 500''] \<and>
   extract_rtf_text rupee_input = [8377] @ ustr '' 500''"
  by (simp only: rupee_value rupee_extract_value)

section \<open>Blank lines in clean text\<close>







end
